theory Spec2Isabelle
  imports Complex_Main "HOL-Library.Multiset"
begin

section \<open>Beam analysis report: the statics evaluator and the force table\<close>

text \<open>
  The development embeds \<^verbatim>\<open>generate_report.py\<close>: the routine
  \<^verbatim>\<open>compute_sfd_bmd\<close> (reactions, shear force and bending moment of a simply
  supported beam under point loads) and the loop that writes the input table into the
  report.

  The routine is embedded twice, statement by statement the same, over two kinds of
  number.
  \<^item> The exact model takes numbers as the reals: every sum, product and quotient is
    exact. It carries the equations of statics, which hold of exact arithmetic.
  \<^item> The floating-point model takes numbers as the binary64 values that Python's
    \<^verbatim>\<open>float\<close> and NumPy's \<^verbatim>\<open>float64\<close> compute with, every operation rounded to
    nearest, ties to even. It carries what the routine raises, and the inputs at which
    rounding separates the values the code returns from the exact equations.
\<close>

subsection \<open>Data\<close>

text \<open>A load is the tuple \<^verbatim>\<open>(position, magnitude)\<close> of the source.\<close>

type_synonym load = "real \<times> real"

text \<open>
  The exception that \<^verbatim>\<open>/\<close> raises on Python numbers when the divisor is zero.
\<close>

datatype error = ZeroDivisionError

text \<open>
  The returned tuple \<^verbatim>\<open>(x, shear, moment, R1, R2)\<close>, with its components named.
\<close>

record result =
  res_x :: "real list"
  res_shear :: "real list"
  res_moment :: "real list"
  res_R1 :: real
  res_R2 :: real

subsection \<open>Library operations the routine calls\<close>

text \<open>
  \<^verbatim>\<open>np.linspace(start, stop, num)\<close> with the default \<^verbatim>\<open>endpoint=True\<close>:
  the step is \<^verbatim>\<open>(stop - start) / (num - 1)\<close>, the samples are
  \<^verbatim>\<open>arange(0, num) * step + start\<close>, and for \<^verbatim>\<open>num > 1\<close> the last sample
  is overwritten with \<^verbatim>\<open>stop\<close>.
\<close>

definition linspace :: "real \<Rightarrow> real \<Rightarrow> nat \<Rightarrow> real list" where
  "linspace start stop num =
     (let dv = num - 1;
          step = (stop - start) / real dv;
          y = map (\<lambda>i. real i * step + start) [0..<num]
      in if 1 < num then y[num - 1 := stop] else y)"

text \<open>Python's \<^verbatim>\<open>sum\<close>: start at 0 and add the items from left to right.\<close>

definition py_sum :: "real list \<Rightarrow> real" where
  "py_sum ts = foldl (\<lambda>s t. s + t) 0 ts"

text \<open>Python's true division \<^verbatim>\<open>p / q\<close>.\<close>

definition py_truediv :: "real \<Rightarrow> real \<Rightarrow> error + real" where
  "py_truediv p q = (if q = 0 then Inl ZeroDivisionError else Inr (p / q))"

subsection \<open>The statics evaluator\<close>

text \<open>
  The list comprehension \<^verbatim>\<open>[P * (length - a) / length for a, P in forces]\<close>:
  the terms are computed in list order, and the first failing division ends it.
\<close>

fun R1_terms :: "real \<Rightarrow> load list \<Rightarrow> error + real list" where
  "R1_terms len [] = Inr []"
| "R1_terms len ((a, P) # forces) =
     (case py_truediv (P * (len - a)) len of
        Inl e \<Rightarrow> Inl e
      | Inr t \<Rightarrow> (case R1_terms len forces of
                   Inl e \<Rightarrow> Inl e
                 | Inr ts \<Rightarrow> Inr (t # ts)))"

text \<open>The list comprehension \<^verbatim>\<open>[P * a / length for a, P in forces]\<close>.\<close>

fun R2_terms :: "real \<Rightarrow> load list \<Rightarrow> error + real list" where
  "R2_terms len [] = Inr []"
| "R2_terms len ((a, P) # forces) =
     (case py_truediv (P * a) len of
        Inl e \<Rightarrow> Inl e
      | Inr t \<Rightarrow> (case R2_terms len forces of
                   Inl e \<Rightarrow> Inl e
                 | Inr ts \<Rightarrow> Inr (t # ts)))"

text \<open>
  The inner loop \<^verbatim>\<open>for a, P in forces: if xi >= a: V -= P; M -= P * (xi - a)\<close>,
  threading the pair \<^verbatim>\<open>(V, M)\<close>.
\<close>

fun apply_loads :: "real \<Rightarrow> load list \<Rightarrow> real \<times> real \<Rightarrow> real \<times> real" where
  "apply_loads xi [] (V, M) = (V, M)"
| "apply_loads xi ((a, P) # forces) (V, M) =
     (if xi \<ge> a then apply_loads xi forces (V - P, M - P * (xi - a))
      else apply_loads xi forces (V, M))"

text \<open>
  The body of the outer loop at one sample: \<^verbatim>\<open>V = R1; M = R1 * xi\<close>, then the
  inner loop. The result is the pair appended to \<^verbatim>\<open>shear\<close> and \<^verbatim>\<open>moment\<close>.
\<close>

definition sample_point :: "real \<Rightarrow> load list \<Rightarrow> real \<Rightarrow> real \<times> real" where
  "sample_point R1 forces xi = apply_loads xi forces (R1, R1 * xi)"

text \<open>
  The outer loop \<^verbatim>\<open>for xi in x\<close>, threading the two lists it appends to.
\<close>

fun sample_loop ::
  "real \<Rightarrow> load list \<Rightarrow> real list \<Rightarrow> real list \<times> real list \<Rightarrow> real list \<times> real list" where
  "sample_loop R1 forces [] (shear, moment) = (shear, moment)"
| "sample_loop R1 forces (xi # xs) (shear, moment) =
     (case sample_point R1 forces xi of
        (V, M) \<Rightarrow> sample_loop R1 forces xs (shear @ [V], moment @ [M]))"

definition compute_sfd_bmd :: "real \<Rightarrow> load list \<Rightarrow> error + result" where
  "compute_sfd_bmd len forces =
     (let x = linspace 0 len 400 in
      case R1_terms len forces of
        Inl e \<Rightarrow> Inl e
      | Inr ts1 \<Rightarrow>
          (case R2_terms len forces of
             Inl e \<Rightarrow> Inl e
           | Inr ts2 \<Rightarrow>
               (let R1 = py_sum ts1;
                    R2 = py_sum ts2
                in case sample_loop R1 forces x ([], []) of
                     (shear, moment) \<Rightarrow>
                       Inr \<lparr>res_x = x, res_shear = shear, res_moment = moment,
                            res_R1 = R1, res_R2 = R2\<rparr>)))"

subsection \<open>The force table of the report\<close>

text \<open>
  The data frame read from the spreadsheet, as the script uses it: rows in file
  order, each with the columns \<^verbatim>\<open>Position\<close> and \<^verbatim>\<open>Force\<close>.
\<close>

record row =
  Position :: real
  Force :: real

type_synonym dataframe = "row list"

text \<open>\<^verbatim>\<open>df["Position"]\<close> and \<^verbatim>\<open>df["Force"]\<close>: one column, in row order.\<close>

definition column :: "(row \<Rightarrow> real) \<Rightarrow> dataframe \<Rightarrow> real list" where
  "column c df = map c df"

text \<open>\<^verbatim>\<open>forces = list(zip(df["Position"], df["Force"]))\<close>\<close>

definition forces_of :: "dataframe \<Rightarrow> load list" where
  "forces_of df = zip (column Position df) (column Force df)"

text \<open>
  A \<^verbatim>\<open>Tabular\<close> is the sequence of what was added to it: horizontal lines and
  rows of cells; a cell is a bold text or a number.
\<close>

datatype cell = Bold string | Num real

datatype tabular_item = Hline | Row "cell list"

type_synonym tabular = "tabular_item list"

definition add_hline :: "tabular \<Rightarrow> tabular" where
  "add_hline table = table @ [Hline]"

definition add_row :: "tabular \<Rightarrow> cell list \<Rightarrow> tabular" where
  "add_row table cells = table @ [Row cells]"

text \<open>
  The loop \<^verbatim>\<open>for index, row in df.iterrows(): table.add_row(...); table.add_hline()\<close>.
\<close>

fun add_data_rows :: "tabular \<Rightarrow> dataframe \<Rightarrow> tabular" where
  "add_data_rows table [] = table"
| "add_data_rows table (r # df) =
     add_data_rows (add_hline (add_row table [Num (Position r), Num (Force r)])) df"

text \<open>The table block of the section "Input Data: Force Table".\<close>

definition force_table :: "dataframe \<Rightarrow> tabular" where
  "force_table df =
     (let table = [];
          table = add_hline table;
          table = add_row table [Bold ''Position (m)'', Bold ''Force (kN)''];
          table = add_hline table
      in add_data_rows table df)"

text \<open>
  Reading a table block back: the (position, magnitude) pairs of its numeric rows,
  in the order they appear. Lines and the heading row carry no pair.
\<close>

fun table_pairs :: "tabular \<Rightarrow> load list" where
  "table_pairs [] = []"
| "table_pairs (Row [Num p, Num f] # table) = (p, f) # table_pairs table"
| "table_pairs (item # table) = table_pairs table"

section \<open>The routine in floating-point arithmetic\<close>

subsection \<open>Binary64 values and their operations\<close>

text \<open>
  A binary64 value is a finite number, kept as the rational it denotes, an infinity or
  a NaN. The sign of a zero is not kept: the routine never divides by a zero without
  raising, so the sign of a zero changes no comparison and no value it computes other
  than the sign of a zero.
\<close>

datatype double = Finite rat | PosInf | NegInf | NaN

text \<open>The number of binary digits of a natural number.\<close>

fun bit_length :: "nat \<Rightarrow> nat" where
  "bit_length n = (if n = 0 then 0 else Suc (bit_length (n div 2)))"

declare bit_length.simps [simp del]

text \<open>
  For \<open>x > 0\<close>, the exponent \<open>e\<close> with \<open>2 ^ e \<le> x < 2 ^ (e + 1)\<close>, and the
  powers of two with an integer exponent.
\<close>

definition ilog2 :: "rat \<Rightarrow> int" where
  "ilog2 x =
     (if 1 \<le> x then int (bit_length (nat \<lfloor>x\<rfloor>)) - 1
      else - int (bit_length (nat \<lceil>1 / x\<rceil> - 1)))"

definition pow2 :: "int \<Rightarrow> rat" where
  "pow2 k = (if 0 \<le> k then 2 ^ nat k else 1 / 2 ^ nat (- k))"

text \<open>The nearest integer, a tie going to the even neighbour.\<close>

definition round_half_even :: "rat \<Rightarrow> int" where
  "round_half_even x =
     (let f = \<lfloor>x\<rfloor>; d = x - of_int f
      in if d < 1 / 2 then f
         else if 1 / 2 < d then f + 1
         else if even f then f else f + 1)"

text \<open>
  Rounding an exact result to binary64: 53 significant binary digits, the exponent
  not below \<open>-1022\<close> (subnormal numbers share that exponent), and an infinity when the
  rounded value reaches \<open>2 ^ 1024\<close>.
\<close>

definition round_double :: "rat \<Rightarrow> double" where
  "round_double x =
     (if x = 0 then Finite 0
      else
        (let e = max (ilog2 \<bar>x\<bar>) (- 1022);
             n = round_half_even (x / pow2 (e - 52))
         in if 1023 < e \<or> (e = 1023 \<and> 2 ^ 53 \<le> \<bar>n\<bar>)
            then (if 0 < x then PosInf else NegInf)
            else Finite (of_int n * pow2 (e - 52))))"

text \<open>
  Negation, addition, subtraction, multiplication and division of binary64 values.
  None of them raises: out of range they give an infinity, and where no value is
  defined a NaN. Division by a zero is listed for completeness, with the zero taken
  as positive; the routine does not reach it.
\<close>

fun fneg :: "double \<Rightarrow> double" where
  "fneg (Finite x) = Finite (- x)"
| "fneg PosInf = NegInf"
| "fneg NegInf = PosInf"
| "fneg NaN = NaN"

fun fadd :: "double \<Rightarrow> double \<Rightarrow> double" where
  "fadd (Finite x) (Finite y) = round_double (x + y)"
| "fadd NaN b = NaN"
| "fadd a NaN = NaN"
| "fadd PosInf NegInf = NaN"
| "fadd NegInf PosInf = NaN"
| "fadd PosInf b = PosInf"
| "fadd NegInf b = NegInf"
| "fadd a PosInf = PosInf"
| "fadd a NegInf = NegInf"

definition fsub :: "double \<Rightarrow> double \<Rightarrow> double" where
  "fsub a b = fadd a (fneg b)"

fun fmul :: "double \<Rightarrow> double \<Rightarrow> double" where
  "fmul (Finite x) (Finite y) = round_double (x * y)"
| "fmul NaN b = NaN"
| "fmul a NaN = NaN"
| "fmul PosInf (Finite y) = (if y = 0 then NaN else if 0 < y then PosInf else NegInf)"
| "fmul NegInf (Finite y) = (if y = 0 then NaN else if 0 < y then NegInf else PosInf)"
| "fmul (Finite x) PosInf = (if x = 0 then NaN else if 0 < x then PosInf else NegInf)"
| "fmul (Finite x) NegInf = (if x = 0 then NaN else if 0 < x then NegInf else PosInf)"
| "fmul PosInf PosInf = PosInf"
| "fmul PosInf NegInf = NegInf"
| "fmul NegInf PosInf = NegInf"
| "fmul NegInf NegInf = PosInf"

fun fdiv :: "double \<Rightarrow> double \<Rightarrow> double" where
  "fdiv (Finite x) (Finite y) =
     (if y = 0 then (if x = 0 then NaN else if 0 < x then PosInf else NegInf)
      else round_double (x / y))"
| "fdiv NaN b = NaN"
| "fdiv a NaN = NaN"
| "fdiv (Finite x) b = Finite 0"
| "fdiv PosInf (Finite y) = (if 0 \<le> y then PosInf else NegInf)"
| "fdiv NegInf (Finite y) = (if 0 \<le> y then NegInf else PosInf)"
| "fdiv a b = NaN"



subsection \<open>The statics evaluator on floats\<close>








text \<open>
  \<^verbatim>\<open>np.linspace(start, stop, num)\<close> as NumPy computes it on \<^verbatim>\<open>float64\<close>:
  \<^verbatim>\<open>delta = stop - start\<close>, \<^verbatim>\<open>y = arange(0, num)\<close>, \<^verbatim>\<open>step = delta / div\<close>
  with \<^verbatim>\<open>div = num - 1\<close>; then \<^verbatim>\<open>y = y * step\<close>, or \<^verbatim>\<open>y = (y / div) * delta\<close>
  when the step is zero; then \<^verbatim>\<open>y += start\<close>, and for \<^verbatim>\<open>num > 1\<close> the last
  sample is overwritten with \<^verbatim>\<open>stop\<close>.
\<close>

definition linspace_f :: "double \<Rightarrow> double \<Rightarrow> nat \<Rightarrow> double list" where
  "linspace_f start stop num =
     (let dv = num - 1;
          delta = fsub stop start;
          y = map (\<lambda>i. Finite (of_nat i)) [0..<num];
          y = (if 0 < dv then
                 (let step = fdiv delta (Finite (of_nat dv))
                  in if step = Finite 0
                     then map (\<lambda>v. fmul (fdiv v (Finite (of_nat dv))) delta) y
                     else map (\<lambda>v. fmul v step) y)
               else map (\<lambda>v. fmul v delta) y);
          y = map (\<lambda>v. fadd v start) y
      in if 1 < num then y[num - 1 := stop] else y)"



section \<open>Properties\<close>

subsection \<open>Closed forms of the loops\<close>

text \<open>
  Each loop of the routine is brought into a closed form: the sums are list sums, the
  inner loop subtracts the sums over the loads at or before the sample, the outer loop
  is a map over the positions.
\<close>

lemma py_sum_acc: "foldl (\<lambda>s t. s + t) (s0::real) ts = s0 + sum_list ts"
  by (induction ts arbitrary: s0) simp_all

lemma py_sum_sum_list: "py_sum ts = sum_list ts"
  by (simp add: py_sum_def py_sum_acc)

lemma R1_terms_nonzero:
  "len \<noteq> 0 \<Longrightarrow> R1_terms len forces = Inr (map (\<lambda>(a, P). P * (len - a) / len) forces)"
  by (induction forces) (auto simp: py_truediv_def)

lemma R2_terms_nonzero:
  "len \<noteq> 0 \<Longrightarrow> R2_terms len forces = Inr (map (\<lambda>(a, P). P * a / len) forces)"
  by (induction forces) (auto simp: py_truediv_def)

lemma R1_terms_zero:
  "R1_terms 0 forces = (if forces = [] then Inr [] else Inl ZeroDivisionError)"
  by (cases forces) (auto simp: py_truediv_def)

lemma R2_terms_zero:
  "R2_terms 0 forces = (if forces = [] then Inr [] else Inl ZeroDivisionError)"
  by (cases forces) (auto simp: py_truediv_def)

lemma apply_loads_closed:
  "apply_loads xi forces (V, M) =
     (V - sum_list (map snd (filter (\<lambda>(a, P). a \<le> xi) forces)),
      M - sum_list (map (\<lambda>(a, P). P * (xi - a)) (filter (\<lambda>(a, P). a \<le> xi) forces)))"
  by (induction forces arbitrary: V M) auto

lemma sample_loop_closed:
  "sample_loop R1 forces xs (shear, moment) =
     (shear @ map (\<lambda>xi. fst (sample_point R1 forces xi)) xs,
      moment @ map (\<lambda>xi. snd (sample_point R1 forces xi)) xs)"
  by (induction xs arbitrary: shear moment) (auto split: prod.splits)

subsection \<open>The sample grid of \<open>linspace\<close>\<close>

lemma linspace_length: "length (linspace start stop num) = num"
  by (simp add: linspace_def Let_def)

lemma linspace_nth:
  assumes "i < num" and "1 < num"
  shows "linspace 0 stop num ! i = real i * stop / real (num - 1)"
proof (cases "i = num - 1")
  case True
  with assms show ?thesis by (simp add: linspace_def Let_def)
next
  case False
  with assms show ?thesis by (simp add: linspace_def Let_def)
qed

subsection \<open>The routine on a non-zero and on a zero length\<close>

lemma compute_nonzero:
  assumes "len \<noteq> 0"
  shows "compute_sfd_bmd len forces =
     Inr \<lparr>res_x = linspace 0 len 400,
          res_shear = map (\<lambda>xi. fst (sample_point (\<Sum>(a, P)\<leftarrow>forces. P * (len - a) / len) forces xi))
                        (linspace 0 len 400),
          res_moment = map (\<lambda>xi. snd (sample_point (\<Sum>(a, P)\<leftarrow>forces. P * (len - a) / len) forces xi))
                        (linspace 0 len 400),
          res_R1 = (\<Sum>(a, P)\<leftarrow>forces. P * (len - a) / len),
          res_R2 = (\<Sum>(a, P)\<leftarrow>forces. P * a / len)\<rparr>"
  using assms
  by (simp add: compute_sfd_bmd_def R1_terms_nonzero R2_terms_nonzero py_sum_sum_list
      sample_loop_closed Let_def)

lemma compute_zero:
  "compute_sfd_bmd 0 forces = Inl e \<longleftrightarrow> forces \<noteq> []"
  by (cases e) (simp add: compute_sfd_bmd_def R1_terms_zero R2_terms_zero Let_def sample_loop_closed)

subsection \<open>Sums of the reaction terms\<close>

lemma term_split: "(len::real) \<noteq> 0 \<Longrightarrow> P * (len - a) / len + P * a / len = (P::real)"
  by (simp add: field_simps)

lemma reactions_sum:
  fixes len :: real
  assumes "len \<noteq> 0"
  shows "(\<Sum>(a, P)\<leftarrow>forces. P * (len - a) / len) + (\<Sum>(a, P)\<leftarrow>forces. P * a / len)
     = sum_list (map snd forces)"
proof (induction forces)
  case Nil
  show ?case by simp
next
  case (Cons f forces)
  obtain a P where f: "f = (a, P)" by (cases f)
  from term_split [OF assms, of P a] Cons.IH show ?case
    unfolding f by simp
qed

lemma reaction_moment:
  fixes len :: real
  assumes "len \<noteq> 0"
  shows "(\<Sum>(a, P)\<leftarrow>forces. P * (len - a) / len) * len = (\<Sum>(a, P)\<leftarrow>forces. P * (len - a))"
proof (induction forces)
  case Nil
  show ?case by simp
next
  case (Cons f forces)
  obtain a P where f: "f = (a, P)" by (cases f)
  from assms Cons.IH show ?case
    unfolding f by (simp add: distrib_right)
qed


lemma linspace_last:
  assumes "1 < num"
  shows "last (linspace start stop num) = stop"
proof -
  from assms have "linspace start stop num \<noteq> []"
    using linspace_length [of start stop num] by auto
  then have "last (linspace start stop num) = linspace start stop num ! (num - 1)"
    by (simp add: last_conv_nth linspace_length)
  also from assms have "\<dots> = stop" by (simp add: linspace_def Let_def)
  finally show ?thesis .
qed


subsection \<open>Reading the table back\<close>

lemma table_pairs_append:
  "table_pairs (t1 @ t2) = table_pairs t1 @ table_pairs t2"
  by (induction t1 rule: table_pairs.induct) simp_all

lemma add_data_rows_pairs:
  "table_pairs (add_data_rows table df) = table_pairs table @ forces_of df"
  by (induction df arbitrary: table)
     (simp_all add: forces_of_def column_def add_hline_def add_row_def table_pairs_append)

lemma compute_zero_nonempty:
  "forces \<noteq> [] \<Longrightarrow> compute_sfd_bmd 0 forces = Inl ZeroDivisionError"
  by (simp add: compute_sfd_bmd_def R1_terms_zero Let_def)

lemma compute_error_iff:
  "compute_sfd_bmd len forces = Inl ZeroDivisionError \<longleftrightarrow> len = 0 \<and> forces \<noteq> []"
proof (cases "len = 0")
  case True
  then show ?thesis using compute_zero [of forces ZeroDivisionError] by simp
next
  case False
  then show ?thesis by (simp add: compute_nonzero)
qed

lemma R1_terms_error_iff:
  "R1_terms len forces = Inl ZeroDivisionError \<longleftrightarrow> len = 0 \<and> forces \<noteq> []"
proof (cases "len = 0")
  case True
  then show ?thesis by (simp add: R1_terms_zero)
next
  case False
  then show ?thesis by (simp add: R1_terms_nonzero)
qed

subsection \<open>Sums and samples under reordering\<close>

lemma sum_list_map_mset:
  fixes f :: "'a \<Rightarrow> real"
  assumes "mset xs = mset ys"
  shows "sum_list (map f xs) = sum_list (map f ys)"
proof -
  have "sum_list (map f xs) = sum_mset (image_mset f (mset xs))"
    by (simp flip: sum_mset_sum_list)
  also have "\<dots> = sum_mset (image_mset f (mset ys))"
    by (simp only: assms)
  also have "\<dots> = sum_list (map f ys)"
    by (simp flip: sum_mset_sum_list)
  finally show ?thesis .
qed

lemma sample_point_mset:
  assumes "mset forces = mset forces'"
  shows "sample_point R1 forces xi = sample_point R1 forces' xi"
proof -
  from assms have "mset (filter (\<lambda>(a, P). a \<le> xi) forces) = mset (filter (\<lambda>(a, P). a \<le> xi) forces')"
    by (simp only: mset_filter)
  then show ?thesis
    unfolding sample_point_def apply_loads_closed
    by (simp add: sum_list_map_mset [of "filter (\<lambda>(a, P). a \<le> xi) forces"
          "filter (\<lambda>(a, P). a \<le> xi) forces'"])
qed

lemma filter_all_loads:
  assumes "\<forall>(a, P) \<in> set forces. 0 \<le> a \<and> a \<le> len"
  shows "filter (\<lambda>(a, P). a \<le> len) forces = forces"
  using assms by (induction forces) auto

subsection \<open>The floating-point routine in closed form\<close>












lemma linspace_f_length: "length (linspace_f start stop num) = num"
  by (simp add: linspace_f_def Let_def)


subsection \<open>Equilibrium of the reactions\<close>







subsection \<open>Shear under a single load\<close>

text \<open>
  Claim C3. For every length \<open>len > 0\<close> and a single load \<open>(a, P)\<close> with
  \<open>0 \<le> a \<le> len\<close>, the shear list is the position list with each sample \<open>x\<close>
  replaced by \<open>R1\<close> when \<open>x < a\<close> and by \<open>R1 - P\<close> when \<open>x \<ge> a\<close>; and the
  inner loop subtracts the load exactly when the sample satisfies the closed
  inequality \<open>xi \<ge> a\<close>.
\<close>

theorem shear_step_single_load:
  assumes "0 < len" and "0 \<le> a" and "a \<le> len"
  shows "\<exists>r. compute_sfd_bmd len [(a, P)] = Inr r \<and>
             res_shear r = map (\<lambda>x. if x < a then res_R1 r else res_R1 r - P) (res_x r) \<and>
             (\<forall>xi V M. apply_loads xi [(a, P)] (V, M) =
                (if xi \<ge> a then (V - P, M - P * (xi - a)) else (V, M)))"
proof -
  from assms(1) have nz: "len \<noteq> 0" by simp
  have "fst (sample_point R [(a, P)] x) = (if x < a then R else R - P)" for R x
    by (simp add: sample_point_def)
  then show ?thesis
    by (simp add: compute_nonzero [OF nz])
qed

theorem shear_step_single_load_witness:
  "(0::real) < 10 \<and> (0::real) \<le> 5 \<and> (5::real) \<le> 10 \<and>
   (\<exists>r. compute_sfd_bmd 10 [(5, 10)] = Inr r \<and>
        res_shear r = map (\<lambda>x. if x < 5 then res_R1 r else res_R1 r - 10) (res_x r) \<and>
        apply_loads 5 [(5, 10)] (5, 25) = (- 5, 25) \<and>
        apply_loads 4 [(5, 10)] (5, 20) = (5, 20))"
proof -
  from shear_step_single_load [of 10 5 10]
  obtain r where r: "compute_sfd_bmd 10 [(5, 10)] = Inr r"
    "res_shear r = map (\<lambda>x. if x < 5 then res_R1 r else res_R1 r - 10) (res_x r)"
    "\<forall>xi V M. apply_loads xi [(5, 10)] (V, M) =
       (if xi \<ge> 5 then (V - 10, M - 10 * (xi - 5)) else (V, M))"
    by auto
  from r(3) have "apply_loads 5 [(5, 10)] (5, 25) = (- 5, 25)"
    and "apply_loads 4 [(5, 10)] (5, 20) = (5, 20)"
    by simp_all
  with r(1,2) show ?thesis by simp
qed

subsection \<open>The unloaded beam\<close>

text \<open>
  Claim C4. For every length \<open>len > 0\<close>, the routine applied to the empty load
  list returns \<open>R1 = 0\<close>, \<open>R2 = 0\<close>, and a shear and a moment list that are zero at
  each of the sampled positions.
\<close>

theorem empty_loads_zero:
  assumes "0 < len"
  shows "\<exists>r. compute_sfd_bmd len [] = Inr r \<and> res_R1 r = 0 \<and> res_R2 r = 0 \<and>
             res_shear r = map (\<lambda>x. 0) (res_x r) \<and>
             res_moment r = map (\<lambda>x. 0) (res_x r)"
proof -
  from assms(1) have nz: "len \<noteq> 0" by simp
  show ?thesis
    by (simp add: compute_nonzero [OF nz] sample_point_def)
qed

theorem empty_loads_zero_witness:
  "(0::real) < 10 \<and>
   (\<exists>r. compute_sfd_bmd 10 [] = Inr r \<and> res_R1 r = 0 \<and> res_R2 r = 0 \<and>
        res_shear r = map (\<lambda>x. 0) (res_x r) \<and>
        res_moment r = map (\<lambda>x. 0) (res_x r))"
  using empty_loads_zero [of 10] by simp

subsection \<open>The sample grid\<close>





subsection \<open>A beam of length 10 with one central load\<close>

text \<open>
  Claim C6. For \<open>len = 10\<close> and the single load \<open>(5, 10)\<close> the routine returns
  \<open>R1 = 5\<close> and \<open>R2 = 5\<close>; the shear it evaluates is 5 at every position \<open>x < 5\<close>
  and \<open>-5\<close> at every position \<open>x \<ge> 5\<close>, on the sampled positions and as a function
  of the position; the moment it evaluates is 0 at \<open>x = 0\<close>, 25 at \<open>x = 5\<close> and 0 at
  \<open>x = 10\<close>, and the first and last sampled moments, at the positions 0 and 10, are 0.
\<close>

theorem central_load_scenario:
  "\<exists>r. compute_sfd_bmd 10 [(5, 10)] = Inr r \<and>
       res_R1 r = 5 \<and> res_R2 r = 5 \<and>
       res_shear r = map (\<lambda>x. if x < 5 then 5 else - 5) (res_x r) \<and>
       (\<forall>x. fst (sample_point (res_R1 r) [(5, 10)] x) = (if x < 5 then 5 else - 5)) \<and>
       snd (sample_point (res_R1 r) [(5, 10)] 0) = 0 \<and>
       snd (sample_point (res_R1 r) [(5, 10)] 5) = 25 \<and>
       snd (sample_point (res_R1 r) [(5, 10)] 10) = 0 \<and>
       hd (res_x r) = 0 \<and> hd (res_moment r) = 0 \<and>
       last (res_x r) = 10 \<and> last (res_moment r) = 0"
proof -
  have nz: "(10::real) \<noteq> 0" by simp
  have ne: "linspace 0 10 400 \<noteq> []"
    using linspace_length [of 0 10 400] by auto
  have h: "hd (linspace 0 10 400) = 0"
    using linspace_nth [of 0 400 10] ne by (simp add: hd_conv_nth)
  have l: "last (linspace 0 10 400) = 10"
    by (simp add: linspace_last)
  have sh: "fst (sample_point 5 [(5, 10)] x) = (if x < 5 then 5 else - 5)" for x
    by (simp add: sample_point_def)
  show ?thesis
    by (simp add: compute_nonzero [OF nz] sh hd_map [OF ne] last_map [OF ne] h l)
       (simp add: sample_point_def)
qed

subsection \<open>Errors\<close>





subsection \<open>The force table\<close>

text \<open>
  Claim C8. For every input table, the pairs read back from the table block of the
  report are the list \<^verbatim>\<open>forces\<close> of the input's (position, magnitude) pairs:
  the same pairs, each as often as in the input, in the input order.
\<close>

theorem force_table_round_trip: "table_pairs (force_table df) = forces_of df"
  by (simp add: force_table_def add_data_rows_pairs add_hline_def add_row_def)

subsection \<open>Reordering the loads\<close>

text \<open>
  Claim C9. For every length \<open>len > 0\<close> and two load lists that are permutations of
  each other, the routine returns the same result for both: the same positions,
  shear list, moment list, \<open>R1\<close> and \<open>R2\<close>.
\<close>

theorem permutation_invariant:
  assumes "0 < len" and "mset forces = mset forces'"
  shows "compute_sfd_bmd len forces = compute_sfd_bmd len forces' \<and>
         (\<exists>r. compute_sfd_bmd len forces = Inr r)"
proof -
  from assms(1) have nz: "len \<noteq> 0" by simp
  have "(\<Sum>(a, P)\<leftarrow>forces. P * (len - a) / len) = (\<Sum>(a, P)\<leftarrow>forces'. P * (len - a) / len)"
    and "(\<Sum>(a, P)\<leftarrow>forces. P * a / len) = (\<Sum>(a, P)\<leftarrow>forces'. P * a / len)"
    using assms(2) by (rule sum_list_map_mset)+
  then show ?thesis
    by (simp add: compute_nonzero [OF nz] sample_point_mset [OF assms(2)])
qed

theorem permutation_invariant_witness:
  "(0::real) < 6 \<and> mset [(2, 6), (4, 3::real)] = mset [(4, 3), (2::real, 6::real)] \<and>
   compute_sfd_bmd 6 [(2, 6), (4, 3)] = compute_sfd_bmd 6 [(4, 3), (2, 6)] \<and>
   (\<exists>r. compute_sfd_bmd 6 [(2, 6), (4, 3)] = Inr r)"
proof -
  have p: "mset [(2, 6), (4, 3::real)] = mset [(4, 3), (2::real, 6::real)]"
    by (simp add: add_mset_commute)
  have l: "(0::real) < 6" by simp
  note res = permutation_invariant [OF l p]
  show ?thesis
    by (intro conjI) (rule l, rule p, rule conjunct1 [OF res], rule conjunct2 [OF res])
qed

subsection \<open>The far support\<close>

text \<open>
  Claim C10. For every length \<open>len > 0\<close> and every list of loads whose positions
  lie in \<open>[0, len]\<close>, the last sample is at \<open>x = len\<close>, the shear there is \<open>- R2\<close>
  and the moment there is 0, for any number of loads.
\<close>

theorem far_support:
  assumes "0 < len" and "\<forall>(a, P) \<in> set forces. 0 \<le> a \<and> a \<le> len"
  shows "\<exists>r. compute_sfd_bmd len forces = Inr r \<and>
             last (res_x r) = len \<and>
             last (res_shear r) = - res_R2 r \<and>
             last (res_moment r) = 0"
proof -
  from assms(1) have nz: "len \<noteq> 0" by simp
  let ?R1 = "\<Sum>(a, P)\<leftarrow>forces. P * (len - a) / len"
  let ?R2 = "\<Sum>(a, P)\<leftarrow>forces. P * a / len"
  have ne: "linspace 0 len 400 \<noteq> []"
    using linspace_length [of 0 len 400] by auto
  have lst: "last (linspace 0 len 400) = len"
    by (simp add: linspace_last)
  have "sample_point ?R1 forces len =
      (?R1 - sum_list (map snd forces), ?R1 * len - (\<Sum>(a, P)\<leftarrow>forces. P * (len - a)))"
    by (simp add: sample_point_def apply_loads_closed filter_all_loads [OF assms(2)])
  also have "?R1 - sum_list (map snd forces) = - ?R2"
    using reactions_sum [OF nz, of forces] by simp
  also have "?R1 * len - (\<Sum>(a, P)\<leftarrow>forces. P * (len - a)) = 0"
    using reaction_moment [OF nz, of forces] by simp
  finally have "sample_point ?R1 forces len = (- ?R2, 0)" .
  then show ?thesis
    by (simp add: compute_nonzero [OF nz] last_map [OF ne] lst)
qed

theorem far_support_witness:
  "(0::real) < 6 \<and> (0::real) \<le> 2 \<and> (2::real) \<le> 6 \<and> (0::real) \<le> 4 \<and> (4::real) \<le> 6 \<and>
   (\<exists>r. compute_sfd_bmd 6 [(2, 6), (4, 6)] = Inr r \<and>
        last (res_x r) = 6 \<and>
        last (res_shear r) = - res_R2 r \<and>
        last (res_moment r) = 0)"
  using far_support [of 6 "[(2, 6), (4, 6)]"] by simp

end
